theory Spec2Isabelle
  imports Main "HOL-Library.Sublist"
begin

section \<open>Python strings\<close>

text \<open>
  A Python \<^verbatim>\<open>str\<close> is a sequence of Unicode code points, so it is modelled as a
  list of naturals. \<open>u\<close> embeds an ASCII literal; code points outside ASCII are written
  as numbers (243 is o-acute, 10 is the newline).
\<close>

type_synonym ustr = "nat list"

definition u :: "string \<Rightarrow> ustr" where
  "u s = map of_char s"

text \<open>
  \<^verbatim>\<open>x in s\<close> on strings: \<open>x\<close> occurs in \<open>s\<close> as a contiguous run.
\<close>

primrec py_in :: "ustr \<Rightarrow> ustr \<Rightarrow> bool" where
  "py_in x [] = (x = [])"
| "py_in x (c # cs) = (prefix x (c # cs) \<or> py_in x cs)"

text \<open>
  \<^verbatim>\<open>str.lower()\<close>. On ASCII and Latin-1 the mapping is written out: the capital
  letters A-Z and the capitals of the Latin-1 block (192-222, but not the multiplication
  sign 215) move up by 32, every other code point below 256 stays. Python's table for the
  code points from 256 on is not part of the repository; it is the parameter \<open>ext\<close>,
  which sees the text before and after the code point (the lowering of a capital sigma
  depends on its position in the word) and may return more than one code point.
\<close>

definition lower_latin1 :: "nat \<Rightarrow> nat" where
  "lower_latin1 c =
     (if (65 \<le> c \<and> c \<le> 90) \<or> (192 \<le> c \<and> c \<le> 222 \<and> c \<noteq> 215) then c + 32 else c)"

fun lower_from :: "(ustr \<Rightarrow> nat \<Rightarrow> ustr \<Rightarrow> ustr) \<Rightarrow> ustr \<Rightarrow> ustr \<Rightarrow> ustr" where
  "lower_from ext bef [] = []"
| "lower_from ext bef (c # cs) =
     (if c < 256 then [lower_latin1 c] else ext bef c cs) @ lower_from ext (bef @ [c]) cs"

definition py_lower :: "(ustr \<Rightarrow> nat \<Rightarrow> ustr \<Rightarrow> ustr) \<Rightarrow> ustr \<Rightarrow> ustr" where
  "py_lower ext s = lower_from ext [] s"

text \<open>
  \<^verbatim>\<open>str.replace(old, new)\<close>: the occurrences of \<open>old\<close> are found from the left and
  do not overlap. With an empty \<open>old\<close> Python puts \<open>new\<close> before every character and
  at the end.
\<close>

function py_replace :: "ustr \<Rightarrow> ustr \<Rightarrow> ustr \<Rightarrow> ustr" where
  "py_replace old new [] = (if old = [] then new else [])"
| "py_replace old new (c # cs) =
     (if old = [] then new @ c # py_replace old new cs
      else if prefix old (c # cs) then new @ py_replace old new (drop (length old) (c # cs))
      else c # py_replace old new cs)"
  by pat_completeness auto
termination
  by (relation "measure (\<lambda>(old, new, s). length s)") auto

text \<open>\<^verbatim>\<open>str(n)\<close> of a non-negative integer: its decimal digits.\<close>

function str_nat :: "nat \<Rightarrow> ustr" where
  "str_nat n = (if n < 10 then [48 + n] else str_nat (n div 10) @ [48 + n mod 10])"
  by pat_completeness auto
termination
  by (relation "measure id") auto

declare str_nat.simps [simp del]

section \<open>The dataset\<close>

text \<open>
  The \<^verbatim>\<open>pandas.DataFrame\<close> loaded from the uploaded CSV: an index (its length is the
  number of rows) and the columns in order, each with a name, the dtype as
  \<^verbatim>\<open>astype(str)\<close> prints it, and its cells. A cell is missing or holds a value,
  kept as its text.
\<close>

datatype cell = NA | Val ustr

record column =
  col_name :: ustr
  col_dtype :: ustr
  cells :: "cell list"

record dataframe =
  n_index :: nat
  columns :: "column list"

definition shape :: "dataframe \<Rightarrow> nat \<times> nat" where
  "shape d = (n_index d, length (columns d))"

definition py_len :: "dataframe \<Rightarrow> nat" where
  "py_len d = n_index d"

definition dtypes_items :: "dataframe \<Rightarrow> (ustr \<times> ustr) list" where
  "dtypes_items d = map (\<lambda>c. (col_name c, col_dtype c)) (columns d)"

section \<open>Effects and the libraries\<close>

datatype error =
    MissingBinding ustr
  | FormatError
  | TypeError
  | ParserError
  | ValidationError
  | DescribeError
  | CompletionError
  | CodeExecutionError

datatype pyval =
    PyNone
  | PyStr ustr
  | PyInt int
  | PyTuple "pyval list"
  | PyDataFrame dataframe
  | PyModule string

text \<open>A Python \<^verbatim>\<open>dict\<close> with string keys, in insertion order.\<close>

type_synonym namespace = "(string \<times> pyval) list"

record llm_config =
  api_key :: ustr
  model :: string
  temperature :: int

text \<open>
  What a run does beyond returning: the calls of the completion client, of the AST REPL
  and of \<^verbatim>\<open>exec\<close>, and what is handed to the page.
\<close>

datatype event =
    LlmInvoke llm_config ustr
  | ReplRun namespace ustr
  | Exec ustr namespace
  | StMarkdown pyval
  | StDownload ustr pyval ustr
  | StWarning ustr

text \<open>
  The session: the one DataFrame object every tool holds a reference to, and the effects
  so far (the latest last).
\<close>

record world =
  df :: dataframe
  trace :: "event list"

text \<open>
  The libraries the program calls (pandas, tabulate, langchain, the Python interpreter)
  are not part of the repository: each call is a parameter. The code evaluator and
  \<^verbatim>\<open>exec\<close> run arbitrary code on the DataFrame object, so they also return the
  object as they leave it.
\<close>

record lib =
  lower_ext :: "ustr \<Rightarrow> nat \<Rightarrow> ustr \<Rightarrow> ustr"
  corr :: "bool \<Rightarrow> dataframe \<Rightarrow> dataframe"
  to_markdown :: "dataframe \<Rightarrow> ustr"
  table_markdown :: "(ustr \<times> cell list) list \<Rightarrow> ustr"
  describe_number_T_to_string :: "dataframe \<Rightarrow> error + ustr"
  pct_round2 :: "nat \<Rightarrow> nat \<Rightarrow> cell"
  duplicated_sum :: "dataframe \<Rightarrow> nat"
  repr_columns :: "dataframe \<Rightarrow> ustr"
  parse_prompt_value :: "ustr \<Rightarrow> error + ustr"
  complete :: "llm_config \<Rightarrow> ustr \<Rightarrow> error + ustr"
  repl_run :: "namespace \<Rightarrow> ustr \<Rightarrow> pyval \<times> dataframe"
  py_exec :: "ustr \<Rightarrow> namespace \<Rightarrow> error option \<times> dataframe"

definition log_event :: "event \<Rightarrow> world \<Rightarrow> world" where
  "log_event e w = w\<lparr>trace := trace w @ [e]\<rparr>"

section \<open>Prompt templates and chains\<close>

text \<open>
  \<^verbatim>\<open>PromptTemplate\<close>: the text with its \<^verbatim>\<open>{name}\<close> fields and the names it
  requires. Rendering replaces each field by the text bound to its name; a doubled brace
  stands for the brace itself, a brace with no partner is an error. Fields are plain
  names, as in every template of this program; Python's conversions and format
  specifications inside a field are not modelled.
\<close>

record prompt_template =
  template :: ustr
  input_variables :: "string list"

text \<open>
  The text of a template is written segment by segment: literal text, and fields, a field
  being its name between braces (code points 123 and 125).
\<close>

definition campo :: "string \<Rightarrow> ustr" where
  "campo v = [123] @ u v @ [125]"

datatype seg = Lit ustr | Campo string

fun texto :: "seg list \<Rightarrow> ustr" where
  "texto [] = []"
| "texto (Lit s # segs) = s @ texto segs"
| "texto (Campo v # segs) = campo v @ texto segs"

function py_format :: "(string \<times> ustr) list \<Rightarrow> ustr \<Rightarrow> error + ustr" where
  "py_format b [] = Inr []"
| "py_format b (c # cs) =
     (if c = 123 \<and> cs \<noteq> [] \<and> hd cs = 123 then
        (case py_format b (tl cs) of Inl e \<Rightarrow> Inl e | Inr r \<Rightarrow> Inr (123 # r))
      else if c = 125 \<and> cs \<noteq> [] \<and> hd cs = 125 then
        (case py_format b (tl cs) of Inl e \<Rightarrow> Inl e | Inr r \<Rightarrow> Inr (125 # r))
      else if c = 125 then Inl FormatError
      else if c = 123 then
        (if 125 \<in> set cs then
           (case map_of (map (\<lambda>(k, v). (u k, v)) b) (takeWhile (\<lambda>x. x \<noteq> 125) cs) of
              None \<Rightarrow> Inl (MissingBinding (takeWhile (\<lambda>x. x \<noteq> 125) cs))
            | Some v \<Rightarrow>
                (case py_format b (drop 1 (dropWhile (\<lambda>x. x \<noteq> 125) cs)) of
                   Inl e \<Rightarrow> Inl e
                 | Inr r \<Rightarrow> Inr (v @ r)))
         else Inl FormatError)
      else (case py_format b cs of Inl e \<Rightarrow> Inl e | Inr r \<Rightarrow> Inr (c # r)))"
  by pat_completeness auto
termination
  by (relation "measure (\<lambda>(b, s). length s)")
     (auto simp: less_Suc_eq_le length_dropWhile_le le_SucI intro: le_trans [OF diff_le_self])

text \<open>
  What rendering gives on a text written by segments: the literals as they are, the
  fields replaced. It applies when no literal holds a brace and every field is a plain
  name that is bound.
\<close>

fun render :: "(string \<times> ustr) list \<Rightarrow> seg list \<Rightarrow> ustr" where
  "render b [] = []"
| "render b (Lit s # segs) = s @ render b segs"
| "render b (Campo v # segs) = (case map_of b v of None \<Rightarrow> [] | Some x \<Rightarrow> x) @ render b segs"

fun seg_ok :: "(string \<times> ustr) list \<Rightarrow> seg \<Rightarrow> bool" where
  "seg_ok b (Lit s) = (123 \<notin> set s \<and> 125 \<notin> set s)"
| "seg_ok b (Campo v) =
     (v \<noteq> [] \<and> CHR ''{'' \<notin> set v \<and> CHR ''}'' \<notin> set v \<and> map_of b v \<noteq> None)"

text \<open>
  The runnables a chain is piped from, and the values that flow between them. The chat
  model logs the call and returns the completion as a message. The string parser takes
  the text of a message; what it does with a rendered prompt that no model has answered
  is langchain's affair, hence a parameter.
\<close>

datatype runnable = Prompt prompt_template | Llm llm_config | StrOutputParser

datatype chain_val =
    Bindings "(string \<times> ustr) list"
  | PromptValue ustr
  | AIMessage ustr
  | Text ustr

fun llm_invoke :: "lib \<Rightarrow> llm_config \<Rightarrow> ustr \<Rightarrow> world \<Rightarrow> (error + chain_val) \<times> world" where
  "llm_invoke L cfg p w =
     (case complete L cfg p of
        Inl e \<Rightarrow> (Inl e, log_event (LlmInvoke cfg p) w)
      | Inr s \<Rightarrow> (Inr (AIMessage s), log_event (LlmInvoke cfg p) w))"

fun invoke_runnable :: "lib \<Rightarrow> runnable \<Rightarrow> chain_val \<Rightarrow> world \<Rightarrow> (error + chain_val) \<times> world" where
  "invoke_runnable L (Prompt t) (Bindings b) w =
     (case filter (\<lambda>v. v \<notin> set (map fst b)) (input_variables t) of
        v # _ \<Rightarrow> (Inl (MissingBinding (u v)), w)
      | [] \<Rightarrow>
          (case py_format b (template t) of
             Inl e \<Rightarrow> (Inl e, w)
           | Inr p \<Rightarrow> (Inr (PromptValue p), w)))"
| "invoke_runnable L (Prompt t) _ w = (Inl TypeError, w)"
| "invoke_runnable L (Llm cfg) (PromptValue p) w = llm_invoke L cfg p w"
| "invoke_runnable L (Llm cfg) (Text p) w = llm_invoke L cfg p w"
| "invoke_runnable L (Llm cfg) _ w = (Inl TypeError, w)"
| "invoke_runnable L StrOutputParser (AIMessage s) w = (Inr (Text s), w)"
| "invoke_runnable L StrOutputParser (Text s) w = (Inr (Text s), w)"
| "invoke_runnable L StrOutputParser (PromptValue p) w =
     (case parse_prompt_value L p of Inl e \<Rightarrow> (Inl e, w) | Inr s \<Rightarrow> (Inr (Text s), w))"
| "invoke_runnable L StrOutputParser (Bindings b) w = (Inl TypeError, w)"

text \<open>\<^verbatim>\<open>(a | b).invoke(x)\<close>: the runnables in order, stopping at the first error.\<close>

fun invoke_chain :: "lib \<Rightarrow> runnable list \<Rightarrow> chain_val \<Rightarrow> world \<Rightarrow> (error + chain_val) \<times> world" where
  "invoke_chain L [] v w = (Inr v, w)"
| "invoke_chain L (r # rs) v w =
     (case invoke_runnable L r v w of
        (Inl e, w') \<Rightarrow> (Inl e, w')
      | (Inr v', w') \<Rightarrow> invoke_chain L rs v' w')"

text \<open>\<^verbatim>\<open>sep.join(xs)\<close>.\<close>

fun py_join :: "ustr \<Rightarrow> ustr list \<Rightarrow> ustr" where
  "py_join sep [] = []"
| "py_join sep [x] = x"
| "py_join sep (x # y # ys) = x @ sep @ py_join sep (y # ys)"

section \<open>herramientas.py\<close>

text \<open>
  Each tool takes the question and the DataFrame; here the DataFrame is the one of the
  session, read from the state. A tool returns its value or the error it raised, and
  the state it leaves.
\<close>

subsection \<open>informacion_df\<close>

definition plantilla_informacion_df :: prompt_template where
  "plantilla_informacion_df = \<lparr>
     template =
       texto
        [Lit [10],
         Lit (u ''        Eres un analista de datos senior y debes '' @
              u ''generar una narrativa profesional.'' @ [10]),
         Lit [10],
         Lit (u ''        Datos del dataset:'' @ [10]),
         Lit (u ''        - Pregunta del usuario: ''),
         Campo ''pregunta'',
         Lit [10],
         Lit (u ''        - Filas: ''),
         Campo ''n_filas'',
         Lit [10],
         Lit (u ''        - Columnas: ''),
         Campo ''n_columnas'',
         Lit [10],
         Lit [10],
         Lit (u ''        Escribe un texto que incluya:'' @ [10]),
         Lit (u ''        1. Una explicaci'' @ [243] @ u ''n general del dataset'' @ [10]),
         Lit (u ''        2. Qu'' @ [233] @ u '' an'' @ [225] @ u ''lisis son relevantes'' @ [10]),
         Lit (u ''        3. Recomendaciones de preprocesamiento'' @ [10]),
         Lit (u ''        4. Posibles insights'' @ [10]),
         Lit [10],
         Lit (u ''        No repitas tablas ni dimensiones.'' @ [10]),
         Lit (u ''        '')],
     input_variables = [''pregunta'', ''n_filas'', ''n_columnas'']\<rparr>"

definition cadena_informacion_df :: "runnable list" where
  "cadena_informacion_df = [Prompt plantilla_informacion_df, StrOutputParser]"

text \<open>\<^verbatim>\<open>df.isnull().sum()\<close>: the missing cells of each column.\<close>

definition isnull_sum :: "dataframe \<Rightarrow> (ustr \<times> nat) list" where
  "isnull_sum d = map (\<lambda>c. (col_name c, length (filter (\<lambda>x. x = NA) (cells c)))) (columns d)"

definition informe_general :: "nat \<Rightarrow> nat \<Rightarrow> nat \<Rightarrow> ustr \<Rightarrow> ustr \<Rightarrow> ustr \<Rightarrow> ustr" where
  "informe_general n_filas n_columnas duplicados tabla_tipos tabla_nulos narrativa =
     [10] @
     u ''# '' @ [128202] @ u '' Informe General del Dataset'' @ [10] @
     [10] @
     u ''## Resumen General'' @ [10] @
     u ''| M'' @ [233] @ u ''trica | Valor |'' @ [10] @
     u ''|--------|-------|'' @ [10] @
     u ''| Filas | '' @ str_nat n_filas @ u '' |'' @ [10] @
     u ''| Columnas | '' @ str_nat n_columnas @ u '' |'' @ [10] @
     u ''| Duplicados | '' @ str_nat duplicados @ u '' |'' @ [10] @
     [10] @
     u ''---'' @ [10] @
     [10] @
     u ''## Tipos de Datos'' @ [10] @
     tabla_tipos @ [10] @
     [10] @
     u ''---'' @ [10] @
     [10] @
     u ''## Valores Nulos'' @ [10] @
     tabla_nulos @ [10] @
     [10] @
     u ''---'' @ [10] @
     [10] @
     u ''## Narrativa Profesional'' @ [10] @
     narrativa @ [10]"

text \<open>The two tables of the report, of the dtypes and of the missing values.\<close>

definition tabla_tipos :: "lib \<Rightarrow> dataframe \<Rightarrow> ustr" where
  "tabla_tipos L d =
     (let tipos = dtypes_items d
      in table_markdown L
           [(u ''Columna'', map (\<lambda>(c, t). Val c) tipos),
            (u ''Tipo de dato'', map (\<lambda>(c, t). Val t) tipos)])"

definition tabla_nulos :: "lib \<Rightarrow> dataframe \<Rightarrow> ustr" where
  "tabla_nulos L d =
     (let nulos = isnull_sum d;
          pct_nulos = map (\<lambda>(c, n). pct_round2 L n (py_len d)) nulos
      in table_markdown L
           [(u ''Columna'', map (\<lambda>(c, n). Val c) nulos),
            (u ''Nulos'', map (\<lambda>(c, n). Val (str_nat n)) nulos),
            (u ''% Nulos'', pct_nulos)])"

definition informacion_df :: "lib \<Rightarrow> ustr \<Rightarrow> world \<Rightarrow> (error + pyval) \<times> world" where
  "informacion_df L pregunta w =
     (let (n_filas, n_columnas) = shape (df w);
          duplicados = duplicated_sum L (df w);
          (r, w') = invoke_chain L cadena_informacion_df
            (Bindings [(''pregunta'', pregunta), (''n_filas'', str_nat n_filas),
                       (''n_columnas'', str_nat n_columnas)]) w
      in case r of
           Inl e \<Rightarrow> (Inl e, w')
         | Inr (Text narrativa) \<Rightarrow>
             (Inr (PyStr (informe_general n_filas n_columnas duplicados
                            (tabla_tipos L (df w)) (tabla_nulos L (df w)) narrativa)), w')
         | Inr _ \<Rightarrow> (Inl TypeError, w'))"

subsection \<open>resumen_estadistico\<close>

definition plantilla_resumen_estadistico :: prompt_template where
  "plantilla_resumen_estadistico = \<lparr>
     template =
       texto
        [Lit [10],
         Lit (u ''        Eres un analista experto. '' @
              u ''Interpreta estas estad'' @ [237] @ u ''sticas:'' @ [10]),
         Lit [10],
         Lit (u ''        Pregunta: ''),
         Campo ''pregunta'',
         Lit [10],
         Lit [10],
         Lit (u ''        Estad'' @ [237] @ u ''sticas:'' @ [10]),
         Lit (u ''        ''),
         Campo ''resumen'',
         Lit [10],
         Lit [10],
         Lit (u ''        Escribe un informe que incluya:'' @ [10]),
         Lit (u ''        - Interpretaci'' @ [243] @ u ''n columna por columna'' @ [10]),
         Lit (u ''        - Se'' @ [241] @ u ''ales de outliers'' @ [10]),
         Lit (u ''        - Variabilidad'' @ [10]),
         Lit (u ''        - Sugerencias de an'' @ [225] @ u ''lisis posteriores'' @ [10]),
         Lit (u ''        '')],
     input_variables = [''pregunta'', ''resumen'']\<rparr>"

definition cadena_resumen_estadistico :: "runnable list" where
  "cadena_resumen_estadistico = [Prompt plantilla_resumen_estadistico, StrOutputParser]"

definition resumen_estadistico :: "lib \<Rightarrow> ustr \<Rightarrow> world \<Rightarrow> (error + pyval) \<times> world" where
  "resumen_estadistico L pregunta w =
     (case describe_number_T_to_string L (df w) of
        Inl e \<Rightarrow> (Inl e, w)
      | Inr resumen \<Rightarrow>
          (let (r, w') = invoke_chain L cadena_resumen_estadistico
                 (Bindings [(''pregunta'', pregunta), (''resumen'', resumen)]) w
           in case r of
                Inl e \<Rightarrow> (Inl e, w')
              | Inr (Text s) \<Rightarrow> (Inr (PyStr s), w')
              | Inr _ \<Rightarrow> (Inl TypeError, w')))"

subsection \<open>generar_grafico\<close>

definition plantilla_generar_grafico :: prompt_template where
  "plantilla_generar_grafico = \<lparr>
     template =
       texto
        [Lit [10],
         Lit (u ''        Eres un experto en '' @
              u ''visualizaci'' @ [243] @ u ''n. Devuelve SOLO c'' @ [243] @ u ''digo Python.'' @ [10]),
         Lit [10],
         Lit (u ''        Solicitud del usuario:'' @ [10]),
         Lit (u ''        '' @ [34]),
         Campo ''pregunta'',
         Lit [34, 10],
         Lit [10],
         Lit (u ''        Dataset:'' @ [10]),
         Lit (u ''        Filas: ''),
         Campo ''num_filas'',
         Lit [10],
         Lit (u ''        Columnas:'' @ [10]),
         Lit (u ''        ''),
         Campo ''columnas'',
         Lit [10],
         Lit [10],
         Lit (u ''        Reglas:'' @ [10]),
         Lit (u ''        - Usar matplotlib y seaborn'' @ [10]),
         Lit (u ''        - sns.set_theme()'' @ [10]),
         Lit (u ''        - figsize=(10,5)'' @ [10]),
         Lit (u ''        - T'' @ [237] @ u ''tulo y etiquetas'' @ [10]),
         Lit (u ''        - plt.show()'' @ [10]),
         Lit [10],
         Lit (u ''        C'' @ [243] @ u ''digo:'' @ [10]),
         Lit (u ''        '')],
     input_variables = [''pregunta'', ''columnas'', ''num_filas'']\<rparr>"

definition cadena_generar_grafico :: "runnable list" where
  "cadena_generar_grafico = [Prompt plantilla_generar_grafico, StrOutputParser]"

text \<open>
  The lines \<^verbatim>\<open>- name (dtype)\<close> of the columns, joined by newlines (also built by
  generar_insights).
\<close>

definition columnas_info :: "dataframe \<Rightarrow> ustr" where
  "columnas_info d =
     py_join [10] (map (\<lambda>(col, dtype). u ''- '' @ col @ u '' ('' @ dtype @ u '')'') (dtypes_items d))"

text \<open>The code fence, three backticks (code point 96), bare and with the language tag.\<close>

definition fence :: ustr where
  "fence = [96, 96, 96]"

definition fence_python :: ustr where
  "fence_python = [96, 96, 96] @ u ''python''"

definition limpiar :: "ustr \<Rightarrow> ustr" where
  "limpiar script = py_replace fence [] (py_replace fence_python [] script)"

definition generar_grafico :: "lib \<Rightarrow> ustr \<Rightarrow> world \<Rightarrow> (error + pyval) \<times> world" where
  "generar_grafico L pregunta w =
     (let num_filas = py_len (df w);
          (r, w') = invoke_chain L cadena_generar_grafico
            (Bindings [(''pregunta'', pregunta), (''columnas'', columnas_info (df w)),
                       (''num_filas'', str_nat num_filas)]) w
      in case r of
           Inl e \<Rightarrow> (Inl e, w')
         | Inr (Text script) \<Rightarrow>
             (let exec_globals =
                    [(''df'', PyDataFrame (df w')),
                     (''plt'', PyModule ''matplotlib.pyplot''),
                     (''sns'', PyModule ''seaborn'')];
                  (raised, d') = py_exec L (limpiar script) exec_globals;
                  w'' = log_event (Exec (limpiar script) exec_globals) (w'\<lparr>df := d'\<rparr>)
              in case raised of
                   Some e \<Rightarrow> (Inl e, w'')
                 | None \<Rightarrow> (Inr (PyStr []), w''))
         | Inr _ \<Rightarrow> (Inl TypeError, w'))"

subsection \<open>ejecutar_python_inteligente\<close>

definition correl :: ustr where
  "correl = u ''correl''"

definition relacion :: ustr where
  "relacion = u ''relaci'' @ [243] @ u ''n''"

definition analisis_de_correlacion :: "ustr \<Rightarrow> ustr" where
  "analisis_de_correlacion tabla =
     [10] @
     u ''# '' @ [128270] @ u '' An'' @ [225] @ u ''lisis de correlaci'' @ [243] @ u ''n'' @ [10] @
     [10] @
     tabla @ [10]"

definition ejecutar_python_inteligente :: "lib \<Rightarrow> ustr \<Rightarrow> world \<Rightarrow> (error + pyval) \<times> world" where
  "ejecutar_python_inteligente L pregunta w =
     (let pregunta_lower = py_lower (lower_ext L) pregunta in
      if py_in correl pregunta_lower \<or> py_in relacion pregunta_lower then
        (let corr_df = corr L True (df w);
             tabla = to_markdown L corr_df
         in (Inr (PyStr (analisis_de_correlacion tabla)), w))
      else
        (let locals = [(''df'', PyDataFrame (df w))];
             (r, d') = repl_run L locals pregunta
         in (Inr r, log_event (ReplRun locals pregunta) (w\<lparr>df := d'\<rparr>))))"

subsection \<open>generar_insights\<close>

definition plantilla_generar_insights :: prompt_template where
  "plantilla_generar_insights = \<lparr>
     template =
       texto
        [Lit [10],
         Lit (u ''        Eres un analista senior. Responde a la pregunta: ''),
         Campo ''pregunta'',
         Lit [10],
         Lit [10],
         Lit (u ''        Columnas y tipos:'' @ [10]),
         Lit (u ''        ''),
         Campo ''columnas'',
         Lit [10],
         Lit [10],
         Lit (u ''        Genera un informe con:'' @ [10]),
         Lit (u ''        1. Patrones principales'' @ [10]),
         Lit (u ''        2. Tendencias'' @ [10]),
         Lit (u ''        3. Outliers relevantes'' @ [10]),
         Lit (u ''        4. Variables m'' @ [225] @ u ''s importantes'' @ [10]),
         Lit (u ''        5. Recomendaciones accionables'' @ [10]),
         Lit (u ''        '')],
     input_variables = [''pregunta'', ''columnas'']\<rparr>"

definition cadena_generar_insights :: "runnable list" where
  "cadena_generar_insights = [Prompt plantilla_generar_insights, StrOutputParser]"

definition generar_insights :: "lib \<Rightarrow> ustr \<Rightarrow> world \<Rightarrow> (error + pyval) \<times> world" where
  "generar_insights L pregunta w =
     (let (r, w') = invoke_chain L cadena_generar_insights
            (Bindings [(''pregunta'', pregunta), (''columnas'', columnas_info (df w))]) w
      in case r of
           Inl e \<Rightarrow> (Inl e, w')
         | Inr (Text s) \<Rightarrow> (Inr (PyStr s), w')
         | Inr _ \<Rightarrow> (Inl TypeError, w'))"

subsection \<open>crear_herramientas\<close>

text \<open>
  The function a tool wraps is one of five closures over the DataFrame, named here by
  the function each calls.
\<close>

datatype handler =
    InformacionDf
  | ResumenEstadistico
  | GenerarGrafico
  | EjecutarPythonInteligente
  | GenerarInsights

record tool =
  name :: ustr
  func :: handler
  description :: ustr
  return_direct :: bool

definition crear_herramientas :: "tool list" where
  "crear_herramientas =
     [\<lparr>name = u ''Informaciones DF'',
       func = InformacionDf,
       description = u ''Devuelve un informe general del DataFrame.'',
       return_direct = True\<rparr>,
      \<lparr>name = u ''Resumen Estad'' @ [237] @ u ''stico'',
       func = ResumenEstadistico,
       description = u ''Genera un an'' @ [225] @ u ''lisis estad'' @ [237] @ u ''stico completo.'',
       return_direct = True\<rparr>,
      \<lparr>name = u ''Generar Gr'' @ [225] @ u ''fico'',
       func = GenerarGrafico,
       description = u ''Crea un gr'' @ [225] @ u ''fico basado en la solicitud del usuario.'',
       return_direct = True\<rparr>,
      \<lparr>name = u ''Herramienta Python'',
       func = EjecutarPythonInteligente,
       description = u ''Ejecuta an'' @ [225] @ u ''lisis Python inteligentes sobre el DataFrame.'',
       return_direct = True\<rparr>,
      \<lparr>name = u ''Informe de Insights'',
       func = GenerarInsights,
       description = u ''Genera un informe narrativo de insights del dataset.'',
       return_direct = True\<rparr>]"

text \<open>Calling the wrapped function with the question.\<close>

fun call_handler :: "lib \<Rightarrow> handler \<Rightarrow> ustr \<Rightarrow> world \<Rightarrow> (error + pyval) \<times> world" where
  "call_handler L InformacionDf pregunta w = informacion_df L pregunta w"
| "call_handler L ResumenEstadistico pregunta w = resumen_estadistico L pregunta w"
| "call_handler L GenerarGrafico pregunta w = generar_grafico L pregunta w"
| "call_handler L EjecutarPythonInteligente pregunta w = ejecutar_python_inteligente L pregunta w"
| "call_handler L GenerarInsights pregunta w = generar_insights L pregunta w"

text \<open>The chain each handler builds; the Python tool builds none.\<close>

fun cadena_de :: "handler \<Rightarrow> runnable list" where
  "cadena_de InformacionDf = cadena_informacion_df"
| "cadena_de ResumenEstadistico = cadena_resumen_estadistico"
| "cadena_de GenerarGrafico = cadena_generar_grafico"
| "cadena_de EjecutarPythonInteligente = []"
| "cadena_de GenerarInsights = cadena_generar_insights"

section \<open>app.py\<close>

text \<open>The chat model, built once the key has been read from the environment.\<close>

definition llm :: "ustr \<Rightarrow> llm_config" where
  "llm GROQ_API_KEY =
     \<lparr>api_key = GROQ_API_KEY, model = ''llama-3.3-70b-versatile'', temperature = 0\<rparr>"

text \<open>
  \<^verbatim>\<open>{t.name: t for t in tools}\<close>: a later tool of the same name replaces an earlier
  one. \<^verbatim>\<open>tool_dict.get(name)\<close> is the application of the map.
\<close>

definition tool_dict :: "tool list \<Rightarrow> (ustr \<rightharpoonup> tool)" where
  "tool_dict tools = foldl (\<lambda>m t. m(name t \<mapsto> t)) Map.empty tools"

text \<open>\<^verbatim>\<open>tool.run({"pregunta": q})\<close>: the wrapped function on the question.\<close>

definition tool_run :: "lib \<Rightarrow> tool \<Rightarrow> ustr \<Rightarrow> world \<Rightarrow> (error + pyval) \<times> world" where
  "tool_run L t pregunta w = call_handler L (func t) pregunta w"

definition preguntar_llm :: "lib \<Rightarrow> llm_config \<Rightarrow> ustr \<Rightarrow> world \<Rightarrow> (error + ustr) \<times> world" where
  "preguntar_llm L cfg mensaje w =
     (case invoke_runnable L (Llm cfg) (Text mensaje) w of
        (Inl e, w') \<Rightarrow> (Inl e, w')
      | (Inr (AIMessage content), w') \<Rightarrow> (Inr content, w')
      | (Inr _, w') \<Rightarrow> (Inl TypeError, w'))"

text \<open>
  \<^verbatim>\<open>str.strip()\<close> removes the white space at both ends; the code points are those
  Python counts as white space.
\<close>

definition is_space :: "nat \<Rightarrow> bool" where
  "is_space c \<longleftrightarrow>
     (9 \<le> c \<and> c \<le> 13) \<or> (28 \<le> c \<and> c \<le> 32) \<or> c = 133 \<or> c = 160 \<or> c = 5760 \<or>
     (8192 \<le> c \<and> c \<le> 8202) \<or> c = 8232 \<or> c = 8233 \<or> c = 8239 \<or> c = 8287 \<or> c = 12288"

definition py_strip :: "ustr \<Rightarrow> ustr" where
  "py_strip s = rev (dropWhile is_space (rev (dropWhile is_space s)))"

text \<open>
  A button handler returns the error that reached the page, if any, and the state. The
  three report buttons share one shape: look the tool up by its name, and only if it is
  there run it, show the report and offer it for download.
\<close>

definition boton_informe ::
  "lib \<Rightarrow> (ustr \<rightharpoonup> tool) \<Rightarrow> ustr \<Rightarrow> ustr \<Rightarrow> ustr \<Rightarrow> ustr \<Rightarrow> world \<Rightarrow> error option \<times> world" where
  "boton_informe L td nombre pregunta etiqueta archivo w =
     (case td nombre of
        None \<Rightarrow> (None, w)
      | Some t \<Rightarrow>
          (case tool_run L t pregunta w of
             (Inl e, w') \<Rightarrow> (Some e, w')
           | (Inr informe, w') \<Rightarrow>
               (None, log_event (StDownload etiqueta informe archivo)
                        (log_event (StMarkdown informe) w'))))"

definition boton_informe_general :: "lib \<Rightarrow> (ustr \<rightharpoonup> tool) \<Rightarrow> world \<Rightarrow> error option \<times> world" where
  "boton_informe_general L td w =
     boton_informe L td (u ''Informaciones DF'') (u ''Reporte general del DataFrame'')
       ([128229] @ u '' Descargar Informe General'') (u ''informe_general.md'') w"

definition boton_informe_estadistico :: "lib \<Rightarrow> (ustr \<rightharpoonup> tool) \<Rightarrow> world \<Rightarrow> error option \<times> world" where
  "boton_informe_estadistico L td w =
     boton_informe L td (u ''Resumen Estad'' @ [237] @ u ''stico'')
       (u ''Resumen estad'' @ [237] @ u ''stico del DataFrame'')
       ([128229] @ u '' Descargar Informe Estad'' @ [237] @ u ''stico'')
       (u ''informe_estadistico.md'') w"

definition boton_informe_insights :: "lib \<Rightarrow> (ustr \<rightharpoonup> tool) \<Rightarrow> world \<Rightarrow> error option \<times> world" where
  "boton_informe_insights L td w =
     boton_informe L td (u ''Informe de Insights'')
       (u ''Genera un informe con los principales insights'')
       ([128229] @ u '' Descargar Informe de Insights'') (u ''informe_insights.md'') w"

text \<open>The chart button: the tool found under \<open>nombre\<close> is run, nothing is shown.\<close>

definition boton_grafico ::
  "lib \<Rightarrow> (ustr \<rightharpoonup> tool) \<Rightarrow> ustr \<Rightarrow> ustr \<Rightarrow> world \<Rightarrow> error option \<times> world" where
  "boton_grafico L td nombre pregunta_grafico w =
     (if py_strip pregunta_grafico = [] then
        (None, log_event (StWarning
           (u ''Por favor, describe el gr'' @ [225] @ u ''fico que deseas generar.'')) w)
      else
        (case td nombre of
           None \<Rightarrow> (None, w)
         | Some t \<Rightarrow>
             (case tool_run L t pregunta_grafico w of
                (Inl e, w') \<Rightarrow> (Some e, w')
              | (Inr _, w') \<Rightarrow> (None, w'))))"

definition boton_generar_grafico ::
  "lib \<Rightarrow> (ustr \<rightharpoonup> tool) \<Rightarrow> ustr \<Rightarrow> world \<Rightarrow> error option \<times> world" where
  "boton_generar_grafico L td pregunta_grafico w =
     boton_grafico L td (u ''Generar Gr'' @ [225] @ u ''fico'') pregunta_grafico w"

text \<open>The direct question: the prompt is put together in place and sent to the model.\<close>

definition mensaje_directo :: "lib \<Rightarrow> dataframe \<Rightarrow> ustr \<Rightarrow> ustr" where
  "mensaje_directo L d pregunta =
     u ''Eres un analista experto. '' @ [10] @
     u ''                    Responde la siguiente pregunta usando este DataFrame:'' @ [10] @
     u ''                    Columnas: '' @ repr_columns L d @ [10] @
     u ''                    Pregunta: '' @ pregunta"

definition boton_responder_pregunta ::
  "lib \<Rightarrow> llm_config \<Rightarrow> ustr \<Rightarrow> world \<Rightarrow> error option \<times> world" where
  "boton_responder_pregunta L cfg pregunta w =
     (if py_strip pregunta = [] then
        (None, log_event (StWarning (u ''Por favor, escribe una pregunta.'')) w)
      else
        (case preguntar_llm L cfg (mensaje_directo L (df w) pregunta) w of
           (Inl e, w') \<Rightarrow> (Some e, w')
         | (Inr respuesta, w') \<Rightarrow> (None, log_event (StMarkdown (PyStr respuesta)) w')))"

section \<open>Observations used by the properties\<close>

text \<open>The calls of the completion client, of the code evaluator and of exec in a trace.\<close>

fun llm_calls :: "event list \<Rightarrow> (llm_config \<times> ustr) list" where
  "llm_calls [] = []"
| "llm_calls (LlmInvoke cfg p # es) = (cfg, p) # llm_calls es"
| "llm_calls (e # es) = llm_calls es"

fun repl_calls :: "event list \<Rightarrow> (namespace \<times> ustr) list" where
  "repl_calls [] = []"
| "repl_calls (ReplRun ns q # es) = (ns, q) # repl_calls es"
| "repl_calls (e # es) = repl_calls es"

fun exec_calls :: "event list \<Rightarrow> (ustr \<times> namespace) list" where
  "exec_calls [] = []"
| "exec_calls (Exec code ns # es) = (code, ns) # exec_calls es"
| "exec_calls (e # es) = exec_calls es"

text \<open>The chat models and the templates a chain is piped from.\<close>

fun llms_of :: "runnable list \<Rightarrow> llm_config list" where
  "llms_of [] = []"
| "llms_of (Llm cfg # rs) = cfg # llms_of rs"
| "llms_of (r # rs) = llms_of rs"

fun templates_of :: "runnable list \<Rightarrow> prompt_template list" where
  "templates_of [] = []"
| "templates_of (Prompt t # rs) = t # templates_of rs"
| "templates_of (r # rs) = templates_of rs"

text \<open>All templates of the program: those of the chains of the registered tools.\<close>

definition plantillas :: "prompt_template list" where
  "plantillas = concat (map (\<lambda>t. templates_of (cadena_de (func t))) crear_herramientas)"

text \<open>
  The claims' wording: \<open>q\<close> contains \<open>trig\<close> case-insensitively when \<open>trig\<close>
  occurs in \<open>q\<close> once the ASCII and Latin-1 capitals of \<open>q\<close> are lowered.
\<close>

definition fold_case :: "nat \<Rightarrow> nat" where
  "fold_case c = (if c < 256 then lower_latin1 c else c)"


section \<open>Reading the counts off a report\<close>

text \<open>
  What a reader finds stated in the general report: the number after "| Filas | " at the
  head of the summary table, and the number after "| Columnas | " on the next line.
  Nothing is stated when the text does not have this form.
\<close>

definition is_digit :: "nat \<Rightarrow> bool" where
  "is_digit c \<longleftrightarrow> 48 \<le> c \<and> c \<le> 57"

definition dec_val :: "ustr \<Rightarrow> nat" where
  "dec_val ds = foldl (\<lambda>a c. 10 * a + (c - 48)) 0 ds"

definition strip_prefix :: "ustr \<Rightarrow> ustr \<Rightarrow> ustr option" where
  "strip_prefix p s = (if prefix p s then Some (drop (length p) s) else None)"

definition read_nat :: "ustr \<Rightarrow> (nat \<times> ustr) option" where
  "read_nat s =
     (if takeWhile is_digit s = [] then None
      else Some (dec_val (takeWhile is_digit s), dropWhile is_digit s))"

definition hasta_filas :: ustr where
  "hasta_filas =
     [10] @
     u ''# '' @ [128202] @ u '' Informe General del Dataset'' @ [10] @
     [10] @
     u ''## Resumen General'' @ [10] @
     u ''| M'' @ [233] @ u ''trica | Valor |'' @ [10] @
     u ''|--------|-------|'' @ [10] @
     u ''| Filas | ''"

definition hasta_columnas :: ustr where
  "hasta_columnas = u '' |'' @ [10] @ u ''| Columnas | ''"

definition stated_counts :: "ustr \<Rightarrow> (nat \<times> nat) option" where
  "stated_counts informe =
     (case strip_prefix hasta_filas informe of
        None \<Rightarrow> None
      | Some r1 \<Rightarrow>
          (case read_nat r1 of
             None \<Rightarrow> None
           | Some (n, r2) \<Rightarrow>
               (case strip_prefix hasta_columnas r2 of
                  None \<Rightarrow> None
                | Some r3 \<Rightarrow>
                    (case read_nat r3 of
                       None \<Rightarrow> None
                     | Some (m, r4) \<Rightarrow> Some (n, m)))))"

section \<open>Sample inputs\<close>

text \<open>
  Stand-ins for the libraries, a small dataset and a session, on which the model is run
  at concrete inputs. The stand-in evaluator knows two expressions; the stand-in parser
  returns the prompt it is given.
\<close>

definition lib0 :: lib where
  "lib0 = \<lparr>
     lower_ext = (\<lambda>bef c aft. [c]),
     corr = (\<lambda>numeric_only d. d),
     to_markdown = (\<lambda>d. py_join [10] (map col_name (columns d))),
     table_markdown = (\<lambda>cols. py_join [10] (map fst cols)),
     describe_number_T_to_string = (\<lambda>d. Inr (str_nat (n_index d))),
     pct_round2 = (\<lambda>n len. NA),
     duplicated_sum = (\<lambda>d. 0),
     repr_columns = (\<lambda>d. py_join (u '', '') (map col_name (columns d))),
     parse_prompt_value = (\<lambda>p. Inr p),
     complete = (\<lambda>cfg p. Inr (u ''ok'')),
     repl_run = (\<lambda>ns q.
       case map_of ns ''df'' of
         Some (PyDataFrame d) \<Rightarrow>
           (if q = u ''2+2'' then PyInt 4
            else if q = u ''df.shape''
              then PyTuple [PyInt (int (n_index d)), PyInt (int (length (columns d)))]
            else PyNone, d)
       | _ \<Rightarrow> (PyNone, \<lparr>n_index = 0, columns = []\<rparr>)),
     py_exec = (\<lambda>code ns. (None, case map_of ns ''df'' of Some (PyDataFrame d) \<Rightarrow> d
                          | _ \<Rightarrow> \<lparr>n_index = 0, columns = []\<rparr>))\<rparr>"

text \<open>
  The same libraries with the string parser as langchain has it: a rendered prompt is
  neither a string nor a message, so the parser fails its validation on every prompt.
\<close>

definition lib_langchain :: lib where
  "lib_langchain = lib0\<lparr>parse_prompt_value := \<lambda>p. Inl ValidationError\<rparr>"

definition df0 :: dataframe where
  "df0 = \<lparr>n_index = 3, columns =
     [\<lparr>col_name = u ''price'', col_dtype = u ''int64'',
       cells = [Val (u ''10''), Val (u ''20''), NA]\<rparr>,
      \<lparr>col_name = u ''size'', col_dtype = u ''int64'',
       cells = [Val (u ''1''), Val (u ''2''), Val (u ''3'')]\<rparr>]\<rparr>"

definition w0 :: world where
  "w0 = \<lparr>df = df0, trace = []\<rparr>"



definition q_suma :: ustr where
  "q_suma = u ''2+2''"

definition q_shape :: ustr where
  "q_shape = u ''df.shape''"

definition q_reporte :: ustr where
  "q_reporte = u ''Reporte general del DataFrame''"

definition codigo_con_comillas :: ustr where
  "codigo_con_comillas = [10] @ u ''s = '' @ [39, 96, 96, 96, 39, 10]"

definition codigo_simple :: ustr where
  "codigo_simple = [10] @ u ''plt.show()'' @ [10]"

definition q_barras :: ustr where
  "q_barras = u ''barras de price''"

definition q_filas :: ustr where
  "q_filas = u ''cuantas filas hay?''"

definition nombre_desconocido :: ustr where
  "nombre_desconocido = u ''Informe Mensual''"

section \<open>Lemmas on strings\<close>

lemma py_in_sublist: "py_in x s = sublist x s"
  by (induction s) (simp_all add: sublist_Cons_right)


text \<open>A stretch of Latin-1 text is lowered character by character, wherever it stands.\<close>

lemma lower_from_latin1_append:
  "\<forall>c\<in>set s. c < 256 \<Longrightarrow>
   lower_from ext bef (s @ b) = map lower_latin1 s @ lower_from ext (bef @ s) b"
  by (induction s arbitrary: bef) simp_all




text \<open>On a question of Latin-1 text the test of the code is the case-insensitive search.\<close>

lemma py_lower_latin1: "\<forall>c\<in>set q. c < 256 \<Longrightarrow> py_lower ext q = map fold_case q"
  using lower_from_latin1_append [of q ext "[]" "[]"]
  by (simp add: py_lower_def fold_case_def cong: map_cong)



section \<open>Lemmas on rendering\<close>

lemma u_inject: "u a = u b \<longleftrightarrow> a = b"
  by (simp add: u_def inj_map_eq_map inj_def)

lemma brace_in_u:
  "123 \<in> set (u s) \<longleftrightarrow> CHR ''{'' \<in> set s"
  "125 \<in> set (u s) \<longleftrightarrow> CHR ''}'' \<in> set s"
proof -
  have a: "(123::nat) = of_char (CHR ''{'')" and b: "(125::nat) = of_char (CHR ''}'')"
    by simp_all
  show "123 \<in> set (u s) \<longleftrightarrow> CHR ''{'' \<in> set s"
    unfolding u_def a by (auto simp del: of_char_Char)
  show "125 \<in> set (u s) \<longleftrightarrow> CHR ''}'' \<in> set s"
    unfolding u_def b by (auto simp del: of_char_Char)
qed

lemma map_of_u_keys: "map_of (map (\<lambda>(k, x). (u k, x)) b) (u v) = map_of b v"
  by (induction b) (auto simp: u_inject)

lemma py_format_plain:
  "123 \<notin> set s \<Longrightarrow> 125 \<notin> set s \<Longrightarrow>
   py_format b (s @ rest) = (case py_format b rest of Inl e \<Rightarrow> Inl e | Inr r \<Rightarrow> Inr (s @ r))"
  by (induction s) (auto split: sum.splits)

lemma py_format_campo:
  assumes "v \<noteq> []" and "123 \<notin> set (u v)" and "125 \<notin> set (u v)"
  shows "py_format b (campo v @ rest) =
     (case map_of b v of
        None \<Rightarrow> Inl (MissingBinding (u v))
      | Some x \<Rightarrow> (case py_format b rest of Inl e \<Rightarrow> Inl e | Inr r \<Rightarrow> Inr (x @ r)))"
proof -
  have ne: "u v \<noteq> []" using assms(1) by (simp add: u_def)
  have hd: "hd (u v @ 125 # rest) \<noteq> 123" using ne assms(2) by (cases "u v") auto
  have tw: "takeWhile (\<lambda>x. x \<noteq> 125) (u v @ 125 # rest) = u v"
    using assms(3) by (auto simp: takeWhile_append)
  have dw: "dropWhile (\<lambda>x. x \<noteq> 125) (u v @ 125 # rest) = 125 # rest"
    using assms(3) by (auto simp: dropWhile_append)
  show ?thesis
    using hd by (simp add: campo_def tw dw map_of_u_keys split: option.split sum.split)
qed

text \<open>Rendering a text written by segments succeeds as soon as every segment is in order.\<close>

lemma py_format_texto:
  "list_all (seg_ok b) segs \<Longrightarrow> py_format b (texto segs) = Inr (render b segs)"
proof (induction segs)
  case Nil
  then show ?case by simp
next
  case (Cons s segs)
  then have ih: "py_format b (texto segs) = Inr (render b segs)" by simp
  show ?case
  proof (cases s)
    case (Lit x)
    then show ?thesis using Cons.prems ih by (simp add: py_format_plain)
  next
    case (Campo v)
    then show ?thesis using Cons.prems ih
      by (auto simp: py_format_campo brace_in_u)
  qed
qed

text \<open>The four templates render, whatever the values bound to their fields.\<close>

lemma render_informacion_df:
  "\<exists>p. py_format [(''pregunta'', a), (''n_filas'', b), (''n_columnas'', c)]
          (template plantilla_informacion_df) = Inr p"
  unfolding plantilla_informacion_df_def prompt_template.select_convs
  by (subst py_format_texto) (simp_all add: brace_in_u)

lemma render_resumen_estadistico:
  "\<exists>p. py_format [(''pregunta'', a), (''resumen'', b)]
          (template plantilla_resumen_estadistico) = Inr p"
  unfolding plantilla_resumen_estadistico_def prompt_template.select_convs
  by (subst py_format_texto) (simp_all add: brace_in_u)

lemma render_generar_grafico:
  "\<exists>p. py_format [(''pregunta'', a), (''columnas'', b), (''num_filas'', c)]
          (template plantilla_generar_grafico) = Inr p"
  unfolding plantilla_generar_grafico_def prompt_template.select_convs
  by (subst py_format_texto) (simp_all add: brace_in_u)

lemma render_generar_insights:
  "\<exists>p. py_format [(''pregunta'', a), (''columnas'', b)]
          (template plantilla_generar_insights) = Inr p"
  unfolding plantilla_generar_insights_def prompt_template.select_convs
  by (subst py_format_texto) (simp_all add: brace_in_u)

section \<open>Lemmas on chains and traces\<close>

lemma exec_calls_append: "exec_calls (xs @ ys) = exec_calls xs @ exec_calls ys"
  by (induction xs rule: exec_calls.induct) simp_all

lemma llm_calls_append: "llm_calls (xs @ ys) = llm_calls xs @ llm_calls ys"
  by (induction xs rule: llm_calls.induct) simp_all

lemma repl_calls_append: "repl_calls (xs @ ys) = repl_calls xs @ repl_calls ys"
  by (induction xs rule: repl_calls.induct) simp_all

text \<open>A chain with no chat model in it leaves the session as it found it.\<close>

lemma invoke_runnable_no_llm:
  "llms_of [r] = [] \<Longrightarrow> snd (invoke_runnable L r v w) = w"
  by (cases "(L, r, v, w)" rule: invoke_runnable.cases)
     (auto split: list.splits sum.splits)

lemma invoke_chain_no_llm:
  "llms_of rs = [] \<Longrightarrow> snd (invoke_chain L rs v w) = w"
proof (induction rs arbitrary: v w)
  case Nil
  then show ?case by simp
next
  case (Cons r rs)
  have r: "llms_of [r] = []" and rs: "llms_of rs = []"
    using Cons.prems by (cases r; simp)+
  obtain x w' where inv: "invoke_runnable L r v w = (x, w')"
    by (cases "invoke_runnable L r v w")
  then have "w' = w" using invoke_runnable_no_llm [OF r, of L v w] by simp
  then show ?case using inv Cons.IH [OF rs] by (cases x) simp_all
qed

lemma invoke_chain_no_llm_eq:
  "llms_of rs = [] \<Longrightarrow> invoke_chain L rs v w = (fst (invoke_chain L rs v w), w)"
  using invoke_chain_no_llm [of rs L v w] by (simp add: prod_eq_iff)

lemma llms_of_cadenas:
  "llms_of cadena_informacion_df = []" "llms_of cadena_resumen_estadistico = []"
  "llms_of cadena_generar_grafico = []" "llms_of cadena_generar_insights = []"
  by (simp_all add: cadena_informacion_df_def cadena_resumen_estadistico_def
      cadena_generar_grafico_def cadena_generar_insights_def)

lemma informacion_df_world: "snd (informacion_df L q w) = w"
  unfolding informacion_df_def Let_def shape_def
  by (subst invoke_chain_no_llm_eq [OF llms_of_cadenas(1)])
     (simp split: sum.split chain_val.split)

lemma resumen_estadistico_world: "snd (resumen_estadistico L q w) = w"
  unfolding resumen_estadistico_def Let_def
  by (subst invoke_chain_no_llm_eq [OF llms_of_cadenas(2)])
     (simp split: sum.split chain_val.split)

lemma generar_insights_world: "snd (generar_insights L q w) = w"
  unfolding generar_insights_def Let_def
  by (subst invoke_chain_no_llm_eq [OF llms_of_cadenas(4)])
     (simp split: sum.split chain_val.split)

section \<open>The Python tool: which branch runs\<close>





text \<open>
  Claim C3. When the lowered question contains neither trigger ("correl", the accented "relacion"),
  ejecutar_python_inteligente hands the question, exactly as typed, to the AST REPL whose
  only local is the dataset under the name df, and returns what the evaluator returns.
  The evaluator is run once; the dataset is left as the evaluated code leaves it. What an
  expression such as 2+2 or df.shape evaluates to is the evaluator's doing, a parameter
  here; both are shown to reach it unchanged.
\<close>

theorem general_intent_runs_evaluator:
  assumes "\<not> py_in correl (py_lower (lower_ext L) pregunta)"
      and "\<not> py_in relacion (py_lower (lower_ext L) pregunta)"
  shows "ejecutar_python_inteligente L pregunta w =
           (Inr (fst (repl_run L [(''df'', PyDataFrame (df w))] pregunta)),
            \<lparr>df = snd (repl_run L [(''df'', PyDataFrame (df w))] pregunta),
             trace = trace w @ [ReplRun [(''df'', PyDataFrame (df w))] pregunta]\<rparr>)"
  using assms
  by (simp add: ejecutar_python_inteligente_def Let_def log_event_def split: prod.split)

theorem general_intent_runs_evaluator_witness:
  "\<not> py_in correl (py_lower (lower_ext lib0) q_suma) \<and>
   \<not> py_in relacion (py_lower (lower_ext lib0) q_suma) \<and>
   ejecutar_python_inteligente lib0 q_suma w0 =
     (Inr (PyInt 4), \<lparr>df = df0, trace = [ReplRun [(''df'', PyDataFrame df0)] (u ''2+2'')]\<rparr>)"
proof -
  have a: "\<not> py_in correl (py_lower (lower_ext lib0) q_suma)"
    by (simp add: correl_def q_suma_def u_def py_lower_def lower_latin1_def lib0_def)
  have b: "\<not> py_in relacion (py_lower (lower_ext lib0) q_suma)"
    by (simp add: relacion_def q_suma_def u_def py_lower_def lower_latin1_def lib0_def)
  show ?thesis using a b general_intent_runs_evaluator [OF a b, of w0]
    by (simp add: lib0_def w0_def q_suma_def)
qed

text \<open>The second example of the claim, df.shape, reaches the evaluator in the same way.\<close>

lemma df_shape_runs_evaluator:
  "ejecutar_python_inteligente lib0 q_shape w0 =
     (Inr (PyTuple [PyInt 3, PyInt 2]),
      \<lparr>df = df0, trace = [ReplRun [(''df'', PyDataFrame df0)] (u ''df.shape'')]\<rparr>)"
  by (simp add: ejecutar_python_inteligente_def Let_def log_event_def correl_def relacion_def
      q_shape_def u_def py_lower_def lower_latin1_def lib0_def w0_def df0_def)

section \<open>The tools and the completion client\<close>

text \<open>generar_grafico, with the chain's result and the effects of exec spelled out.\<close>

lemma generar_grafico_unfold:
  "generar_grafico L q w =
     (case fst (invoke_chain L cadena_generar_grafico
            (Bindings [(''pregunta'', q), (''columnas'', columnas_info (df w)),
                       (''num_filas'', str_nat (py_len (df w)))]) w) of
        Inl e \<Rightarrow> (Inl e, w)
      | Inr (Text script) \<Rightarrow>
          (case fst (py_exec L (limpiar script)
                  [(''df'', PyDataFrame (df w)), (''plt'', PyModule ''matplotlib.pyplot''),
                   (''sns'', PyModule ''seaborn'')]) of
             Some e \<Rightarrow> Inl e | None \<Rightarrow> Inr (PyStr []),
           \<lparr>df = snd (py_exec L (limpiar script)
                  [(''df'', PyDataFrame (df w)), (''plt'', PyModule ''matplotlib.pyplot''),
                   (''sns'', PyModule ''seaborn'')]),
            trace = trace w @ [Exec (limpiar script)
                  [(''df'', PyDataFrame (df w)), (''plt'', PyModule ''matplotlib.pyplot''),
                   (''sns'', PyModule ''seaborn'')]]\<rparr>)
      | Inr _ \<Rightarrow> (Inl TypeError, w))"
  unfolding generar_grafico_def Let_def
  by (subst invoke_chain_no_llm_eq [OF llms_of_cadenas(3)])
     (simp add: log_event_def split: sum.split chain_val.split prod.split option.split)

lemma generar_grafico_llm_calls:
  "llm_calls (trace (snd (generar_grafico L q w))) = llm_calls (trace w)"
  by (simp add: generar_grafico_unfold llm_calls_append split: sum.split chain_val.split)

lemma ejecutar_python_inteligente_llm_calls:
  "llm_calls (trace (snd (ejecutar_python_inteligente L q w))) = llm_calls (trace w)"
  by (simp add: ejecutar_python_inteligente_def Let_def log_event_def llm_calls_append
      split: prod.split)

text \<open>
  Claim C1 says that every report action (general information, statistical summary,
  chart, insights) invokes the completion endpoint, its chain holding a call to the
  completion client. The chains of herramientas.py are piped from the template and the
  string parser only: no chain of any tool holds a chat model, and running any tool, on
  any question and dataset, adds no call of the completion client to the trace. The
  rendered prompt goes to the parser unanswered.
\<close>

theorem tools_never_call_the_model:
  "llms_of (cadena_de h) = [] \<and>
   llm_calls (trace (snd (call_handler L h pregunta w))) = llm_calls (trace w)"
  by (cases h)
     (simp_all add: llms_of_cadenas informacion_df_world resumen_estadistico_world
        generar_insights_world generar_grafico_llm_calls ejecutar_python_inteligente_llm_calls)

theorem tools_never_call_the_model_witness:
  "llms_of cadena_informacion_df = [] \<and>
   llm_calls (trace (snd (informacion_df lib0 q_reporte w0))) = []"
  using tools_never_call_the_model [of InformacionDf lib0 q_reporte w0]
  by (simp add: w0_def)

text \<open>
  The direct question is the one path that reaches the model, with the fixed model
  identifier and temperature 0.
\<close>

lemma preguntar_llm_calls_the_model:
  "llm_calls (trace (snd (preguntar_llm L (llm key) mensaje w))) =
     llm_calls (trace w) @
       [(\<lparr>api_key = key, model = ''llama-3.3-70b-versatile'', temperature = 0\<rparr>, mensaje)]"
  by (simp add: preguntar_llm_def llm_def log_event_def llm_calls_append split: sum.split)

section \<open>The dataset is not changed by the report tools\<close>

text \<open>
  Claim C7. For every dataset and every question, informacion_df, resumen_estadistico and
  generar_insights leave the dataset as it was: the DataFrame of the session after the
  call is the DataFrame before it, whether the tool returned or raised.
\<close>

theorem report_tools_leave_dataset_unchanged:
  "df (snd (informacion_df L pregunta w)) = df w \<and>
   df (snd (resumen_estadistico L pregunta w)) = df w \<and>
   df (snd (generar_insights L pregunta w)) = df w"
  by (simp add: informacion_df_world resumen_estadistico_world generar_insights_world)

theorem report_tools_leave_dataset_unchanged_witness:
  "df (snd (informacion_df lib0 q_reporte w0)) = df0 \<and>
   df (snd (resumen_estadistico lib0 q_reporte w0)) = df0 \<and>
   df (snd (generar_insights lib0 q_reporte w0)) = df0"
  using report_tools_leave_dataset_unchanged [of lib0 q_reporte w0]
  by (simp add: w0_def)

text \<open>
  The frame is a property of these three tools, not of the model of the state: the code
  evaluator of the Python tool may change the dataset.
\<close>

lemma python_tool_can_change_dataset:
  "df (snd (ejecutar_python_inteligente
        (lib0\<lparr>repl_run := \<lambda>ns q. (PyNone, \<lparr>n_index = 0, columns = []\<rparr>)\<rparr>) q_suma w0)) \<noteq> df w0"
  by (simp add: ejecutar_python_inteligente_def Let_def log_event_def correl_def relacion_def
      q_suma_def u_def py_lower_def lower_latin1_def lib0_def w0_def df0_def)

section \<open>The general report states the shape\<close>

lemma strip_prefix_append: "strip_prefix p (p @ s) = Some s"
  by (simp add: strip_prefix_def)

lemma str_nat_digits: "\<forall>c\<in>set (str_nat n). is_digit c"
proof (induction n rule: str_nat.induct)
  case (1 n)
  show ?case
  proof (cases "n < 10")
    case True
    then show ?thesis by (subst str_nat.simps) (simp add: is_digit_def)
  next
    case False
    have "n mod 10 < 10" by simp
    then have "is_digit (48 + n mod 10)" unfolding is_digit_def by linarith
    then show ?thesis using False "1.IH" by (subst str_nat.simps) simp
  qed
qed

lemma str_nat_nonempty: "str_nat n \<noteq> []"
  by (subst str_nat.simps) simp

lemma dec_val_snoc: "dec_val (ds @ [d]) = 10 * dec_val ds + (d - 48)"
  by (simp add: dec_val_def)

lemma dec_val_str_nat: "dec_val (str_nat n) = n"
proof (induction n rule: str_nat.induct)
  case (1 n)
  show ?case
  proof (cases "n < 10")
    case True
    then show ?thesis by (subst str_nat.simps) (simp add: dec_val_def)
  next
    case False
    then show ?thesis using "1.IH" by (subst str_nat.simps) (simp add: dec_val_snoc)
  qed
qed

lemma read_nat_str_nat:
  "rest \<noteq> [] \<Longrightarrow> \<not> is_digit (hd rest) \<Longrightarrow> read_nat (str_nat n @ rest) = Some (n, rest)"
  using str_nat_digits [of n] str_nat_nonempty [of n]
  by (cases rest) (simp_all add: read_nat_def dec_val_str_nat)

lemma hasta_columnas_hd: "hasta_columnas @ s \<noteq> []" "\<not> is_digit (hd (hasta_columnas @ s))"
  by (simp_all add: hasta_columnas_def u_def is_digit_def)

lemma stated_counts_read:
  assumes "rest \<noteq> []" and "\<not> is_digit (hd rest)"
  shows "stated_counts (hasta_filas @ str_nat n @ hasta_columnas @ str_nat m @ rest) = Some (n, m)"
  by (simp add: stated_counts_def strip_prefix_append read_nat_str_nat hasta_columnas_hd assms)

lemma informe_general_shape:
  "informe_general n m d tt tn narr =
     hasta_filas @ str_nat n @ hasta_columnas @ str_nat m @
       (u '' |'' @ [10] @ u ''| Duplicados | '' @ str_nat d @ u '' |'' @ [10] @
     [10] @
     u ''---'' @ [10] @
     [10] @
     u ''## Tipos de Datos'' @ [10] @
     tt @ [10] @
     [10] @
     u ''---'' @ [10] @
     [10] @
     u ''## Valores Nulos'' @ [10] @
     tn @ [10] @
     [10] @
     u ''---'' @ [10] @
     [10] @
     u ''## Narrativa Profesional'' @ [10] @
     narr @ [10])"
  by (simp add: informe_general_def hasta_filas_def hasta_columnas_def)

lemma stated_counts_informe_general:
  "stated_counts (informe_general n m d tt tn narr) = Some (n, m)"
  unfolding informe_general_shape
  by (rule stated_counts_read) (simp_all add: u_def is_digit_def)

lemma invoke_prompt_parser:
  assumes "py_format b (template t) = Inr p"
      and "filter (\<lambda>v. v \<notin> set (map fst b)) (input_variables t) = []"
  shows "invoke_chain L [Prompt t, StrOutputParser] (Bindings b) w =
           (case parse_prompt_value L p of
              Inl e \<Rightarrow> (Inl e, w)
            | Inr s \<Rightarrow> (Inr (Text s), w))"
  using assms by (simp split: sum.split)

lemma informacion_df_result:
  "\<exists>p. py_format [(''pregunta'', q), (''n_filas'', str_nat (fst (shape (df w)))),
          (''n_columnas'', str_nat (snd (shape (df w))))] (template plantilla_informacion_df) = Inr p
     \<and> informacion_df L q w =
     (case parse_prompt_value L p of
        Inl e \<Rightarrow> (Inl e, w)
      | Inr narrativa \<Rightarrow>
          (Inr (PyStr (informe_general (fst (shape (df w))) (snd (shape (df w)))
                  (duplicated_sum L (df w)) (tabla_tipos L (df w)) (tabla_nulos L (df w))
                  narrativa)), w))"
proof -
  obtain p where p: "py_format [(''pregunta'', q), (''n_filas'', str_nat (fst (shape (df w)))),
      (''n_columnas'', str_nat (snd (shape (df w))))] (template plantilla_informacion_df) = Inr p"
    using render_informacion_df by blast
  have v: "input_variables plantilla_informacion_df = [''pregunta'', ''n_filas'', ''n_columnas'']"
    by (simp add: plantilla_informacion_df_def)
  have c: "invoke_chain L cadena_informacion_df
          (Bindings [(''pregunta'', q), (''n_filas'', str_nat (fst (shape (df w)))),
            (''n_columnas'', str_nat (snd (shape (df w))))]) w =
        (case parse_prompt_value L p of
              Inl e \<Rightarrow> (Inl e, w)
            | Inr s \<Rightarrow> (Inr (Text s), w))"
    unfolding cadena_informacion_df_def
    by (rule invoke_prompt_parser [OF p]) (simp add: v)
  have "informacion_df L q w =
     (case parse_prompt_value L p of
        Inl e \<Rightarrow> (Inl e, w)
      | Inr narrativa \<Rightarrow>
          (Inr (PyStr (informe_general (fst (shape (df w))) (snd (shape (df w)))
                  (duplicated_sum L (df w)) (tabla_tipos L (df w)) (tabla_nulos L (df w))
                  narrativa)), w))"
    unfolding informacion_df_def Let_def
    by (simp add: case_prod_beta c split: sum.split)
  then show ?thesis using p by blast
qed

text \<open>
  The report is built to state the shape: were the parser to accept the rendered prompt,
  the row count and the column count read off the report would be the two components of
  the shape of the dataset.
\<close>

lemma informe_states_shape_if_returned:
  assumes "fst (informacion_df L pregunta w) = Inr (PyStr informe)"
  shows "stated_counts informe = Some (shape (df w))"
proof -
  obtain p where r: "informacion_df L pregunta w =
     (case parse_prompt_value L p of
        Inl e \<Rightarrow> (Inl e, w)
      | Inr narrativa \<Rightarrow>
          (Inr (PyStr (informe_general (fst (shape (df w))) (snd (shape (df w)))
                  (duplicated_sum L (df w)) (tabla_tipos L (df w)) (tabla_nulos L (df w))
                  narrativa)), w))"
    using informacion_df_result by blast
  show ?thesis
  proof (cases "parse_prompt_value L p")
    case (Inl e)
    then show ?thesis using assms r by simp
  next
    case (Inr narrativa)
    then have "informe = informe_general (fst (shape (df w))) (snd (shape (df w)))
                  (duplicated_sum L (df w)) (tabla_tipos L (df w)) (tabla_nulos L (df w))
                  narrativa"
      using assms r by simp
    then show ?thesis by (simp add: stated_counts_informe_general)
  qed
qed

lemma informe_states_shape_if_returned_example:
  "\<exists>informe. fst (informacion_df lib0 q_reporte w0) = Inr (PyStr informe) \<and>
      stated_counts informe = Some (3, 2)"
proof -
  obtain p where r: "informacion_df lib0 q_reporte w0 =
     (case parse_prompt_value lib0 p of
        Inl e \<Rightarrow> (Inl e, w0)
      | Inr narrativa \<Rightarrow>
          (Inr (PyStr (informe_general (fst (shape (df w0))) (snd (shape (df w0)))
                  (duplicated_sum lib0 (df w0)) (tabla_tipos lib0 (df w0))
                  (tabla_nulos lib0 (df w0)) narrativa)), w0))"
    using informacion_df_result by blast
  then have e: "fst (informacion_df lib0 q_reporte w0) =
      Inr (PyStr (informe_general (fst (shape (df w0))) (snd (shape (df w0)))
                  (duplicated_sum lib0 (df w0)) (tabla_tipos lib0 (df w0))
                  (tabla_nulos lib0 (df w0)) p))"
    by (simp add: lib0_def)
  have s: "shape (df w0) = (3, 2)" by (simp add: shape_def w0_def df0_def)
  show ?thesis using e informe_states_shape_if_returned [OF e] s by auto
qed

text \<open>
  Claim C6 says that informacion_df returns a report whose stated row and column counts
  are those of the dataset. The report is never reached: the chain of informacion_df
  hands the rendered prompt to the string parser with no model in between, and whenever
  the parser rejects a prompt, as langchain's does, informacion_df raises that error for
  every question and every dataset, and returns no report. The session is left as it was.
\<close>

theorem informacion_df_returns_no_report:
  assumes "\<forall>p. parse_prompt_value L p = Inl e"
  shows "informacion_df L pregunta w = (Inl e, w)"
proof -
  obtain p where "informacion_df L pregunta w =
     (case parse_prompt_value L p of
        Inl e \<Rightarrow> (Inl e, w)
      | Inr narrativa \<Rightarrow>
          (Inr (PyStr (informe_general (fst (shape (df w))) (snd (shape (df w)))
                  (duplicated_sum L (df w)) (tabla_tipos L (df w)) (tabla_nulos L (df w))
                  narrativa)), w))"
    using informacion_df_result by blast
  then show ?thesis using assms by simp
qed

theorem informacion_df_returns_no_report_witness:
  "(\<forall>p. parse_prompt_value lib_langchain p = Inl ValidationError) \<and>
   informacion_df lib_langchain q_reporte w0 = (Inl ValidationError, w0) \<and>
   shape (df w0) = (3, 2)"
proof -
  have h: "\<forall>p. parse_prompt_value lib_langchain p = Inl ValidationError"
    by (simp add: lib_langchain_def)
  have s: "shape (df w0) = (3, 2)" by (simp add: shape_def w0_def df0_def)
  show ?thesis
    using h s informacion_df_returns_no_report [OF h, of q_reporte w0] by simp
qed

section \<open>Lemmas on code fences\<close>

lemma py_replace_absent:
  "old \<noteq> [] \<Longrightarrow> \<not> py_in old s \<Longrightarrow> py_replace old new s = s"
  by (induction s) auto

lemma py_replace_at_head:
  "old \<noteq> [] \<Longrightarrow> py_replace old new (old @ s) = new @ py_replace old new s"
  by (cases old) simp_all

lemma sublist_before_suffix:
  assumes "xs \<noteq> []" and "last xs \<notin> set zs" and "sublist xs (ys @ zs)"
  shows "sublist xs ys"
proof -
  from assms(3) consider "sublist xs ys" | "sublist xs zs"
    | xs1 xs2 where "xs = xs1 @ xs2" "suffix xs1 ys" "prefix xs2 zs"
    by (auto simp: sublist_append)
  then show ?thesis
  proof cases
    case 1
    then show ?thesis .
  next
    case 2
    then have "set xs \<subseteq> set zs" by (rule set_mono_sublist)
    then show ?thesis using assms(1,2) last_in_set by blast
  next
    case 3
    show ?thesis
    proof (cases "xs2 = []")
      case True
      then show ?thesis using 3 by (simp add: suffix_imp_sublist)
    next
      case False
      then have "last xs = last xs2" using 3(1) by simp
      moreover have "last xs2 \<in> set zs" using False 3(3) set_mono_prefix last_in_set by blast
      ultimately show ?thesis using assms(2) by simp
    qed
  qed
qed

lemma fence_python_after: "\<not> py_in fence_python s \<Longrightarrow> \<not> py_in fence_python (s @ fence)"
proof -
  have a: "fence_python \<noteq> []" and b: "last fence_python \<notin> set fence"
    by (simp_all add: fence_python_def fence_def u_def)
  show "\<not> py_in fence_python s \<Longrightarrow> \<not> py_in fence_python (s @ fence)"
    using sublist_before_suffix [OF a b] by (auto simp: py_in_sublist)
qed

lemma fence_in_fence_python: "py_in fence_python s \<Longrightarrow> py_in fence s"
proof -
  have "sublist fence fence_python" by (simp add: fence_python_def fence_def)
  then show "py_in fence_python s \<Longrightarrow> py_in fence s"
    unfolding py_in_sublist using sublist_order.order.trans by blast
qed

lemma fence_straddle:
  "prefix fence (xs @ fence) \<Longrightarrow> \<not> prefix fence xs \<Longrightarrow> xs = [] \<or> xs = [96] \<or> xs = [96, 96]"
  by (cases xs; cases "tl xs"; cases "tl (tl xs)") (auto simp: fence_def)

lemma strip_closing_fence:
  "\<not> py_in fence inner \<Longrightarrow> py_replace fence [] (inner @ fence) = inner"
proof (induction inner)
  case Nil
  then show ?case by (simp add: fence_def)
next
  case (Cons c cs)
  then have np: "\<not> prefix fence (c # cs)" and ih: "py_replace fence [] (cs @ fence) = cs"
    by simp_all
  show ?case
  proof (cases "prefix fence ((c # cs) @ fence)")
    case True
    then have "c # cs = [96] \<or> c # cs = [96, 96]" using fence_straddle [OF True np] by simp
    then show ?thesis by (auto simp: fence_def)
  next
    case False
    have "fence \<noteq> []" by (simp add: fence_def)
    then show ?thesis using False ih by simp
  qed
qed

lemma limpiar_no_fence: "\<not> py_in fence s \<Longrightarrow> limpiar s = s"
proof -
  assume a: "\<not> py_in fence s"
  then have b: "\<not> py_in fence_python s" using fence_in_fence_python by blast
  have "fence \<noteq> []" "fence_python \<noteq> []" by (simp_all add: fence_def fence_python_def)
  then show ?thesis using a b by (simp add: limpiar_def py_replace_absent)
qed

lemma limpiar_tagged: "\<not> py_in fence inner \<Longrightarrow> limpiar (fence_python @ inner @ fence) = inner"
proof -
  assume a: "\<not> py_in fence inner"
  then have "\<not> py_in fence_python inner" using fence_in_fence_python by blast
  then have b: "\<not> py_in fence_python (inner @ fence)" by (rule fence_python_after)
  have ne: "fence \<noteq> []" "fence_python \<noteq> []" by (simp_all add: fence_def fence_python_def)
  have "py_replace fence_python [] (fence_python @ inner @ fence) = inner @ fence"
    using py_replace_at_head [OF ne(2), of "[]" "inner @ fence"] py_replace_absent [OF ne(2) b]
    by simp
  then show ?thesis using a by (simp add: limpiar_def strip_closing_fence)
qed

lemma limpiar_untagged:
  assumes "\<not> py_in fence inner" and "\<not> py_in fence_python (fence @ inner)"
  shows "limpiar (fence @ inner @ fence) = inner"
proof -
  have ne: "fence \<noteq> []" "fence_python \<noteq> []" by (simp_all add: fence_def fence_python_def)
  have "\<not> py_in fence_python ((fence @ inner) @ fence)"
    using assms(2) by (rule fence_python_after)
  then have "py_replace fence_python [] (fence @ inner @ fence) = fence @ inner @ fence"
    using py_replace_absent [OF ne(2)] by simp
  moreover have "py_replace fence [] (fence @ inner @ fence) = inner"
    using py_replace_at_head [OF ne(1), of "[]" "inner @ fence"] strip_closing_fence [OF assms(1)]
    by simp
  ultimately show ?thesis by (simp add: limpiar_def)
qed

section \<open>Chart generation: what is executed, and in which namespace\<close>

text \<open>
  generar_grafico in full: the template always renders; the parser's answer to the
  rendered prompt, once cleaned, is executed with the three globals.
\<close>

lemma generar_grafico_result:
  "\<exists>p. py_format [(''pregunta'', q), (''columnas'', columnas_info (df w)),
          (''num_filas'', str_nat (py_len (df w)))] (template plantilla_generar_grafico) = Inr p
     \<and> generar_grafico L q w =
     (case parse_prompt_value L p of
        Inl e \<Rightarrow> (Inl e, w)
      | Inr script \<Rightarrow>
          (case fst (py_exec L (limpiar script)
                  [(''df'', PyDataFrame (df w)), (''plt'', PyModule ''matplotlib.pyplot''),
                   (''sns'', PyModule ''seaborn'')]) of
             Some e \<Rightarrow> Inl e | None \<Rightarrow> Inr (PyStr []),
           \<lparr>df = snd (py_exec L (limpiar script)
                  [(''df'', PyDataFrame (df w)), (''plt'', PyModule ''matplotlib.pyplot''),
                   (''sns'', PyModule ''seaborn'')]),
            trace = trace w @ [Exec (limpiar script)
                  [(''df'', PyDataFrame (df w)), (''plt'', PyModule ''matplotlib.pyplot''),
                   (''sns'', PyModule ''seaborn'')]]\<rparr>))"
proof -
  obtain p where p: "py_format [(''pregunta'', q), (''columnas'', columnas_info (df w)),
      (''num_filas'', str_nat (py_len (df w)))] (template plantilla_generar_grafico) = Inr p"
    using render_generar_grafico by blast
  have v: "input_variables plantilla_generar_grafico = [''pregunta'', ''columnas'', ''num_filas'']"
    by (simp add: plantilla_generar_grafico_def)
  have c: "invoke_chain L cadena_generar_grafico
          (Bindings [(''pregunta'', q), (''columnas'', columnas_info (df w)),
                     (''num_filas'', str_nat (py_len (df w)))]) w =
        (case parse_prompt_value L p of
              Inl e \<Rightarrow> (Inl e, w)
            | Inr s \<Rightarrow> (Inr (Text s), w))"
    unfolding cadena_generar_grafico_def
    by (rule invoke_prompt_parser [OF p]) (simp add: v)
  have "generar_grafico L q w =
     (case parse_prompt_value L p of
        Inl e \<Rightarrow> (Inl e, w)
      | Inr script \<Rightarrow>
          (case fst (py_exec L (limpiar script)
                  [(''df'', PyDataFrame (df w)), (''plt'', PyModule ''matplotlib.pyplot''),
                   (''sns'', PyModule ''seaborn'')]) of
             Some e \<Rightarrow> Inl e | None \<Rightarrow> Inr (PyStr []),
           \<lparr>df = snd (py_exec L (limpiar script)
                  [(''df'', PyDataFrame (df w)), (''plt'', PyModule ''matplotlib.pyplot''),
                   (''sns'', PyModule ''seaborn'')]),
            trace = trace w @ [Exec (limpiar script)
                  [(''df'', PyDataFrame (df w)), (''plt'', PyModule ''matplotlib.pyplot''),
                   (''sns'', PyModule ''seaborn'')]]\<rparr>))"
    by (simp add: generar_grafico_unfold c split: sum.split)
  then show ?thesis using p by blast
qed

lemma generar_grafico_exec_calls:
  "\<exists>p. py_format [(''pregunta'', q), (''columnas'', columnas_info (df w)),
          (''num_filas'', str_nat (py_len (df w)))] (template plantilla_generar_grafico) = Inr p
     \<and> exec_calls (trace (snd (generar_grafico L q w))) =
     exec_calls (trace w) @
       (case parse_prompt_value L p of
          Inl e \<Rightarrow> []
        | Inr script \<Rightarrow>
            [(limpiar script,
              [(''df'', PyDataFrame (df w)), (''plt'', PyModule ''matplotlib.pyplot''),
               (''sns'', PyModule ''seaborn'')])])"
proof -
  obtain p where p: "py_format [(''pregunta'', q), (''columnas'', columnas_info (df w)),
          (''num_filas'', str_nat (py_len (df w)))] (template plantilla_generar_grafico) = Inr p"
    and r: "generar_grafico L q w =
     (case parse_prompt_value L p of
        Inl e \<Rightarrow> (Inl e, w)
      | Inr script \<Rightarrow>
          (case fst (py_exec L (limpiar script)
                  [(''df'', PyDataFrame (df w)), (''plt'', PyModule ''matplotlib.pyplot''),
                   (''sns'', PyModule ''seaborn'')]) of
             Some e \<Rightarrow> Inl e | None \<Rightarrow> Inr (PyStr []),
           \<lparr>df = snd (py_exec L (limpiar script)
                  [(''df'', PyDataFrame (df w)), (''plt'', PyModule ''matplotlib.pyplot''),
                   (''sns'', PyModule ''seaborn'')]),
            trace = trace w @ [Exec (limpiar script)
                  [(''df'', PyDataFrame (df w)), (''plt'', PyModule ''matplotlib.pyplot''),
                   (''sns'', PyModule ''seaborn'')]]\<rparr>))"
    using generar_grafico_result by blast
  have "exec_calls (trace (snd (generar_grafico L q w))) =
     exec_calls (trace w) @
       (case parse_prompt_value L p of
          Inl e \<Rightarrow> []
        | Inr script \<Rightarrow>
            [(limpiar script,
              [(''df'', PyDataFrame (df w)), (''plt'', PyModule ''matplotlib.pyplot''),
               (''sns'', PyModule ''seaborn'')])])"
    unfolding r by (simp add: exec_calls_append split: sum.split)
  then show ?thesis using p by blast
qed

text \<open>
  Claim C5. Every call of exec that generar_grafico makes is given a namespace of exactly
  three bindings, in this order: df, bound to the dataset of the session, plt, the
  plotting module, and sns, the statistical-styling module.
\<close>

theorem exec_namespace_three_bindings:
  "\<forall>(code, ns) \<in> set (drop (length (exec_calls (trace w)))
        (exec_calls (trace (snd (generar_grafico L pregunta w))))).
     ns = [(''df'', PyDataFrame (df w)), (''plt'', PyModule ''matplotlib.pyplot''),
           (''sns'', PyModule ''seaborn'')]
     \<and> map fst ns = [''df'', ''plt'', ''sns'']"
proof -
  obtain p where "exec_calls (trace (snd (generar_grafico L pregunta w))) =
     exec_calls (trace w) @
       (case parse_prompt_value L p of
          Inl e \<Rightarrow> []
        | Inr script \<Rightarrow>
            [(limpiar script,
              [(''df'', PyDataFrame (df w)), (''plt'', PyModule ''matplotlib.pyplot''),
               (''sns'', PyModule ''seaborn'')])])"
    using generar_grafico_exec_calls by blast
  then show ?thesis by (cases "parse_prompt_value L p") simp_all
qed

theorem exec_namespace_three_bindings_witness:
  "\<exists>code. exec_calls (trace (snd (generar_grafico lib0 q_barras w0))) =
     [(code, [(''df'', PyDataFrame df0), (''plt'', PyModule ''matplotlib.pyplot''),
              (''sns'', PyModule ''seaborn'')])]"
proof -
  obtain p where "exec_calls (trace (snd (generar_grafico lib0 q_barras w0))) =
     exec_calls (trace w0) @
       (case parse_prompt_value lib0 p of
          Inl e \<Rightarrow> []
        | Inr script \<Rightarrow>
            [(limpiar script,
              [(''df'', PyDataFrame (df w0)), (''plt'', PyModule ''matplotlib.pyplot''),
               (''sns'', PyModule ''seaborn'')])])"
    using generar_grafico_exec_calls by blast
  then obtain code ns where
    c: "exec_calls (trace (snd (generar_grafico lib0 q_barras w0))) = [(code, ns)]"
    by (simp add: lib0_def w0_def)
  have "ns = [(''df'', PyDataFrame (df w0)), (''plt'', PyModule ''matplotlib.pyplot''),
           (''sns'', PyModule ''seaborn'')]"
    using exec_namespace_three_bindings [of w0 lib0 q_barras] c by (simp add: w0_def)
  then show ?thesis using c by (simp add: w0_def)
qed

text \<open>
  Claim C4, as amended. The text that generar_grafico executes is the parser's answer to
  the rendered prompt with every "```python" removed and then every remaining "```"
  removed, and nothing else is done to it. So a text with no triple backtick is executed
  as it is; and for inner code that itself holds no triple backtick, the text fenced with
  the python tag is cleaned to the inner code unchanged, and so is the text fenced
  without a tag, provided the opening fence and the inner code together do not spell
  "```python".
\<close>

theorem limpiar_only_strips_fences:
  "(\<exists>p. py_format [(''pregunta'', pregunta), (''columnas'', columnas_info (df w)),
          (''num_filas'', str_nat (py_len (df w)))] (template plantilla_generar_grafico) = Inr p
      \<and> exec_calls (trace (snd (generar_grafico L pregunta w))) =
          exec_calls (trace w) @
            (case parse_prompt_value L p of
               Inl e \<Rightarrow> []
             | Inr script \<Rightarrow>
                 [(limpiar script,
                   [(''df'', PyDataFrame (df w)), (''plt'', PyModule ''matplotlib.pyplot''),
                    (''sns'', PyModule ''seaborn'')])]))
   \<and> (\<not> py_in fence script \<longrightarrow> limpiar script = script)
   \<and> (\<not> py_in fence inner \<longrightarrow> limpiar (fence_python @ inner @ fence) = inner)
   \<and> (\<not> py_in fence inner \<and> \<not> py_in fence_python (fence @ inner) \<longrightarrow>
        limpiar (fence @ inner @ fence) = inner)"
  using generar_grafico_exec_calls [of pregunta w L]
  by (simp add: limpiar_no_fence limpiar_tagged limpiar_untagged)

theorem limpiar_only_strips_fences_witness:
  "\<not> py_in fence codigo_simple \<and> \<not> py_in fence_python (fence @ codigo_simple) \<and>
   limpiar codigo_simple = codigo_simple \<and>
   limpiar (fence_python @ codigo_simple @ fence) = codigo_simple \<and>
   limpiar (fence @ codigo_simple @ fence) = codigo_simple"
proof -
  have a: "\<not> py_in fence codigo_simple"
    by (simp add: fence_def codigo_simple_def u_def)
  have b: "\<not> py_in fence_python (fence @ codigo_simple)"
    by (simp add: fence_def fence_python_def codigo_simple_def u_def)
  show ?thesis
    using a b limpiar_only_strips_fences [of q_barras w0 lib0 codigo_simple codigo_simple]
    by simp
qed

text \<open>
  The claim as first stated (any fenced code is cleaned to its inner code) fails when
  the inner code itself holds a triple backtick, here in a string literal: the
  backticks inside are removed too.
\<close>

theorem limpiar_changes_inner_backticks:
  "limpiar (fence_python @ codigo_con_comillas @ fence) \<noteq> codigo_con_comillas"
  by (simp add: limpiar_def fence_python_def fence_def codigo_con_comillas_def u_def)

text \<open>Without a tag, inner code that begins with the word python loses it.\<close>

lemma limpiar_eats_leading_python:
  "limpiar (fence @ u ''python_version = 3'' @ [10] @ fence) = u ''_version = 3'' @ [10]"
  by (simp add: limpiar_def fence_python_def fence_def u_def)

section \<open>The tool registry\<close>

lemma foldl_register_other:
  "nm \<notin> set (map name tools) \<Longrightarrow> foldl (\<lambda>m t. m(name t \<mapsto> t)) m0 tools nm = m0 nm"
  by (induction tools arbitrary: m0) simp_all

lemma foldl_register_found:
  "distinct (map name tools) \<Longrightarrow> t \<in> set tools \<Longrightarrow>
   foldl (\<lambda>m t. m(name t \<mapsto> t)) m0 tools (name t) = Some t"
proof (induction tools arbitrary: m0)
  case Nil
  then show ?case by simp
next
  case (Cons x xs)
  show ?case
  proof (cases "t = x")
    case True
    have "name x \<notin> set (map name xs)" using Cons.prems(1) by simp
    then have "foldl (\<lambda>m t. m(name t \<mapsto> t)) (m0(name x \<mapsto> x)) xs (name x) =
        (m0(name x \<mapsto> x)) (name x)"
      by (rule foldl_register_other)
    then show ?thesis unfolding True by (simp only: foldl.simps fun_upd_same)
  next
    case False
    then have "t \<in> set xs" using Cons.prems(2) by simp
    moreover have "distinct (map name xs)" using Cons.prems(1) by simp
    ultimately show ?thesis using Cons.IH by (simp only: foldl.simps)
  qed
qed

lemma tool_dict_dom: "dom (tool_dict tools) = set (map name tools)"
proof -
  have "dom (foldl (\<lambda>m t. m(name t \<mapsto> t)) m0 tools) = dom m0 \<union> set (map name tools)" for m0
    by (induction tools arbitrary: m0) auto
  then show ?thesis by (simp add: tool_dict_def)
qed

lemma crear_herramientas_names:
  "map name crear_herramientas =
     [u ''Informaciones DF'', u ''Resumen Estad'' @ [237] @ u ''stico'',
      u ''Generar Gr'' @ [225] @ u ''fico'', u ''Herramienta Python'', u ''Informe de Insights'']"
  by (simp add: crear_herramientas_def)

lemma crear_herramientas_distinct: "distinct (map name crear_herramientas)"
  unfolding crear_herramientas_names by (simp add: u_def)

text \<open>
  Claim C9. In a registry built from tools of distinct names (as those of
  crear_herramientas are), looking up the name of a registered tool returns exactly that
  tool. For a name that is not registered the lookup returns nothing, and the button
  handlers then do nothing at all: no tool runs, nothing is shown, no error reaches the
  page, and the session is as before.
\<close>

theorem registry_lookup:
  assumes "distinct (map name tools)"
  shows "(\<forall>t\<in>set tools. tool_dict tools (name t) = Some t) \<and>
         (\<forall>nombre. nombre \<notin> set (map name tools) \<longrightarrow>
            tool_dict tools nombre = None \<and>
            boton_informe L (tool_dict tools) nombre pregunta etiqueta archivo w = (None, w) \<and>
            (py_strip pregunta \<noteq> [] \<longrightarrow>
               boton_grafico L (tool_dict tools) nombre pregunta w = (None, w)))"
  using assms
  by (auto simp: tool_dict_def foldl_register_found foldl_register_other
      boton_informe_def boton_grafico_def)

theorem registry_lookup_witness:
  "distinct (map name crear_herramientas) \<and>
   map_option func (tool_dict crear_herramientas (u ''Informaciones DF'')) = Some InformacionDf \<and>
   map_option func (tool_dict crear_herramientas (u ''Herramienta Python''))
     = Some EjecutarPythonInteligente \<and>
   nombre_desconocido \<notin> set (map name crear_herramientas) \<and>
   tool_dict crear_herramientas nombre_desconocido = None \<and>
   boton_informe lib0 (tool_dict crear_herramientas) nombre_desconocido q_reporte
     (u ''Descargar'') (u ''informe.md'') w0 = (None, w0) \<and>
   py_strip q_barras \<noteq> [] \<and>
   boton_grafico lib0 (tool_dict crear_herramientas) nombre_desconocido q_barras w0 = (None, w0)"
proof -
  have d: "distinct (map name crear_herramientas)" by (rule crear_herramientas_distinct)
  have n: "nombre_desconocido \<notin> set (map name crear_herramientas)"
    unfolding crear_herramientas_names by (simp add: nombre_desconocido_def u_def)
  have s: "py_strip q_barras \<noteq> []"
    by (simp add: py_strip_def q_barras_def u_def is_space_def)
  have a: "crear_herramientas ! 0 \<in> set crear_herramientas"
    and b: "crear_herramientas ! 3 \<in> set crear_herramientas"
    by (simp_all add: crear_herramientas_def)
  have a': "name (crear_herramientas ! 0) = u ''Informaciones DF''"
       "func (crear_herramientas ! 0) = InformacionDf"
    and b': "name (crear_herramientas ! 3) = u ''Herramienta Python''"
       "func (crear_herramientas ! 3) = EjecutarPythonInteligente"
    by (simp_all add: crear_herramientas_def)
  from registry_lookup [OF d, of lib0 q_reporte "u ''Descargar''" "u ''informe.md''" w0]
       registry_lookup [OF d, of lib0 q_barras "u ''Descargar''" "u ''informe.md''" w0]
  show ?thesis using d n s a b a' b'
    by (metis option.simps(9))
qed

section \<open>The prompt templates\<close>

lemma input_variables_plantillas:
  "input_variables plantilla_informacion_df = [''pregunta'', ''n_filas'', ''n_columnas'']"
  "input_variables plantilla_resumen_estadistico = [''pregunta'', ''resumen'']"
  "input_variables plantilla_generar_grafico = [''pregunta'', ''columnas'', ''num_filas'']"
  "input_variables plantilla_generar_insights = [''pregunta'', ''columnas'']"
  by (simp_all add: plantilla_informacion_df_def plantilla_resumen_estadistico_def
      plantilla_generar_grafico_def plantilla_generar_insights_def)

lemma plantillas_distinct:
  "distinct [plantilla_informacion_df, plantilla_resumen_estadistico,
             plantilla_generar_grafico, plantilla_generar_insights]"
proof -
  have "distinct (map input_variables [plantilla_informacion_df, plantilla_resumen_estadistico,
             plantilla_generar_grafico, plantilla_generar_insights])"
    by (simp add: input_variables_plantillas)
  then show ?thesis unfolding distinct_map by (rule conjunct1)
qed

lemma plantillas_list:
  "plantillas = [plantilla_informacion_df, plantilla_resumen_estadistico,
                 plantilla_generar_grafico, plantilla_generar_insights]"
  by (simp add: plantillas_def crear_herramientas_def cadena_informacion_df_def
      cadena_resumen_estadistico_def cadena_generar_grafico_def cadena_generar_insights_def)

lemma boton_responder_llm_calls:
  "py_strip pregunta \<noteq> [] \<Longrightarrow>
   llm_calls (trace (snd (boton_responder_pregunta L cfg pregunta w))) =
     llm_calls (trace w) @ [(cfg, mensaje_directo L (df w) pregunta)]"
  by (simp add: boton_responder_pregunta_def preguntar_llm_def log_event_def llm_calls_append
      split: sum.split)

text \<open>
  Claim C8, as amended. The program has exactly four prompt templates, all different,
  each a fixed text: one in each of informacion_df, resumen_estadistico, generar_grafico
  and generar_insights. The fifth tool, the Python tool, has none. The direct question
  uses no template: its prompt is put together in place and sent to the model as it is.
\<close>

theorem four_templates_and_inline_question:
  "plantillas = [plantilla_informacion_df, plantilla_resumen_estadistico,
                 plantilla_generar_grafico, plantilla_generar_insights]
   \<and> distinct plantillas
   \<and> length plantillas = 4
   \<and> map (\<lambda>t. length (templates_of (cadena_de (func t)))) crear_herramientas = [1, 1, 1, 0, 1]
   \<and> (py_strip pregunta \<noteq> [] \<longrightarrow>
        llm_calls (trace (snd (boton_responder_pregunta L cfg pregunta w))) =
          llm_calls (trace w) @ [(cfg, mensaje_directo L (df w) pregunta)])"
proof -
  have "map (\<lambda>t. length (templates_of (cadena_de (func t)))) crear_herramientas = [1, 1, 1, 0, 1]"
    by (simp add: crear_herramientas_def cadena_informacion_df_def
      cadena_resumen_estadistico_def cadena_generar_grafico_def cadena_generar_insights_def)
  then show ?thesis
    using plantillas_distinct boton_responder_llm_calls
    by (simp add: plantillas_list)
qed

theorem four_templates_and_inline_question_witness:
  "py_strip q_filas \<noteq> [] \<and>
   llm_calls (trace (snd (boton_responder_pregunta lib0 (llm (u ''clave'')) q_filas w0))) =
     [(\<lparr>api_key = u ''clave'', model = ''llama-3.3-70b-versatile'', temperature = 0\<rparr>,
       mensaje_directo lib0 df0 q_filas)]"
proof -
  have s: "py_strip q_filas \<noteq> []"
    by (simp add: py_strip_def q_filas_def u_def is_space_def)
  show ?thesis
    using s four_templates_and_inline_question [of q_filas lib0 "llm (u ''clave'')" w0]
    by (simp add: w0_def llm_def)
qed

text \<open>
  The claim as first stated counts five templates, one per tool; there are four, and
  the chain of the Python tool holds none.
\<close>

theorem not_five_templates:
  "length plantillas \<noteq> 5 \<and> templates_of (cadena_de EjecutarPythonInteligente) = []"
  by (simp add: plantillas_list)

end
